theory Spec2Isabelle
  imports Complex_Main
begin

section \<open>Data model\<close>

text \<open>
  The extension \<^verbatim>\<open>ext-image-occlusion.js\<close> draws rectangle masks on the SVG-Edit
  canvas and registers them with the editor's undo history.

  JavaScript numbers are IEEE doubles. The coordinate type is kept as the type parameter
  \<open>'n\<close>: the code only adds two coordinates and compares them with \<open><\<close> and \<open>>\<close>,
  so the definitions ask for nothing but \<open>plus\<close> and \<open>ord\<close>, and what is proved of
  them holds whatever the addition does, rounding included. A concrete number type whose
  addition rounds as the doubles' does is given further down.

  A rectangle descriptor is the object \<^verbatim>\<open>{x, y, w, h}\<close> delivered by the OCR source,
  a selection box is the object \<^verbatim>\<open>{x, y, width, height}\<close>. The record fields carry a
  prefix, since a field named \<open>x\<close> would turn every variable \<open>x\<close> into a constant.
\<close>

record 'n ocrRect =
  rect_x :: 'n
  rect_y :: 'n
  rect_w :: 'n
  rect_h :: 'n

record 'n selectionBox =
  sel_x :: 'n
  sel_y :: 'n
  sel_width :: 'n
  sel_height :: 'n

text \<open>
  The argument of \<^verbatim>\<open>addSvgElementFromJson\<close>, which is also the element it returns:
  the element kind and the attribute mapping of lines 80-89 (and 133-142).
\<close>

record 'n svgElement =
  element :: string
  attr_x :: 'n
  attr_y :: 'n
  attr_width :: 'n
  attr_height :: 'n
  attr_fill :: string
  attr_stroke :: string
  attr_stroke_width :: 'n
  attr_id :: nat

datatype 'n command = InsertElementCommand "'n svgElement"

record 'n batchCommand =
  batch_text :: string
  batch_stack :: "'n command list"

text \<open>
  The state the extension reads and writes: the property \<^verbatim>\<open>storedOcrRects\<close> it adds
  to the canvas (\<open>None\<close> is an absent value, \<^verbatim>\<open>null\<close> or \<^verbatim>\<open>undefined\<close>),
  and what the host collaborators own: the current style, the id counter, the document
  tree, the undo stack, and the log of events emitted through \<^verbatim>\<open>call\<close>.
\<close>

record 'n svgCanvas =
  storedOcrRects :: "'n ocrRect list option"
  cur_fill :: string
  cur_stroke :: string
  cur_stroke_width :: 'n
  obj_num :: nat
  document :: "'n svgElement list"
  undoStack :: "'n batchCommand list"
  events :: "(string \<times> 'n svgElement list) list"

section \<open>Host collaborators\<close>

text \<open>
  The canvas, the identifier allocator, the style state and the undo history are
  SVG-Edit's, not this file's: the extension reaches them through \<^verbatim>\<open>svgCanvas\<close> and
  the object \<^verbatim>\<open>S\<close>. Their contract is taken from sections 6 and 9 of the
  specification. The newest entry of \<open>undoStack\<close> and of \<open>events\<close> is the last one.
\<close>

text \<open>
  Modelled from the spec: \<^verbatim>\<open>svgCanvas.getColor\<close> is missing; it is the current-style
  getter for the fill and the stroke colour.
\<close>

definition getColor :: "string \<Rightarrow> 'n svgCanvas \<Rightarrow> string" where
  "getColor type c = (if type = ''fill'' then cur_fill c else cur_stroke c)"

text \<open>
  Modelled from the spec: \<^verbatim>\<open>svgCanvas.getStrokeWidth\<close> is missing; it is the
  current-style getter for the stroke width.
\<close>

definition getStrokeWidth :: "'n svgCanvas \<Rightarrow> 'n" where
  "getStrokeWidth c = cur_stroke_width c"

text \<open>
  Modelled from the spec: \<^verbatim>\<open>svgCanvas.getNextId\<close> is missing; it allocates a fresh
  identifier, here the next value of a counter.
\<close>

definition getNextId :: "'n svgCanvas \<Rightarrow> nat \<times> 'n svgCanvas" where
  "getNextId c = (Suc (obj_num c), c\<lparr>obj_num := Suc (obj_num c)\<rparr>)"

text \<open>
  Modelled from the spec: \<^verbatim>\<open>svgCanvas.addSvgElementFromJson\<close> is missing; it creates
  one element from a structured descriptor (element kind and attribute mapping), which
  becomes part of the document tree, and returns it.
\<close>

definition addSvgElementFromJson ::
  "'n svgElement \<Rightarrow> 'n svgCanvas \<Rightarrow> 'n svgElement \<times> 'n svgCanvas" where
  "addSvgElementFromJson data c = (data, c\<lparr>document := document c @ [data]\<rparr>)"

text \<open>
  Modelled from the spec: the constructor \<^verbatim>\<open>S.BatchCommand\<close> is missing; it builds a
  named batch command with no sub-command.
\<close>

definition BatchCommand :: "string \<Rightarrow> 'n batchCommand" where
  "BatchCommand name = \<lparr>batch_text = name, batch_stack = []\<rparr>"

text \<open>
  Modelled from the spec: the method \<^verbatim>\<open>addSubCommand\<close> of a batch command is
  missing; it appends one sub-command.
\<close>

definition addSubCommand :: "'n batchCommand \<Rightarrow> 'n command \<Rightarrow> 'n batchCommand" where
  "addSubCommand batchCmd cmd = batchCmd\<lparr>batch_stack := batch_stack batchCmd @ [cmd]\<rparr>"

text \<open>
  Modelled from the spec: the method \<^verbatim>\<open>isEmpty\<close> of a batch command is missing; it
  tells whether the batch has no sub-command.
\<close>

definition isEmpty :: "'n batchCommand \<Rightarrow> bool" where
  "isEmpty batchCmd = (length (batch_stack batchCmd) = 0)"

text \<open>
  Modelled from the spec: \<^verbatim>\<open>S.addCommandToHistory\<close> is missing; it pushes a completed
  batch onto the undo stack.
\<close>

definition addCommandToHistory :: "'n batchCommand \<Rightarrow> 'n svgCanvas \<Rightarrow> 'n svgCanvas" where
  "addCommandToHistory cmd c = c\<lparr>undoStack := undoStack c @ [cmd]\<rparr>"

text \<open>
  Modelled from the spec: \<^verbatim>\<open>S.call\<close> is missing; it emits the named event with its
  argument, recorded here in the log \<open>events\<close>.
\<close>

definition call :: "string \<Rightarrow> 'n svgElement list \<Rightarrow> 'n svgCanvas \<Rightarrow> 'n svgCanvas" where
  "call ev arg c = c\<lparr>events := events c @ [(ev, arg)]\<rparr>"

section \<open>The extension\<close>

subsection \<open>finalizeCreation (lines 36-58)\<close>

text \<open>
  The loop of lines 47-50: \<^verbatim>\<open>for (var i = new_elems.length - 1; i >= 0; i--)\<close>.
  The index is a signed number, so it is an \<open>int\<close> here; the loop is entered with
  \<open>i = length new_elems - 1\<close> and reads \<open>new_elems[i]\<close> only for \<open>0 \<le> i\<close>.
\<close>

function addSubCommands ::
  "'n svgElement list \<Rightarrow> int \<Rightarrow> 'n batchCommand \<Rightarrow> 'n batchCommand" where
  "addSubCommands new_elems i batchCmd =
     (if i \<ge> 0
      then let elem = new_elems ! nat i
           in addSubCommands new_elems (i - 1)
                (addSubCommand batchCmd (InsertElementCommand elem))
      else batchCmd)"
  by pat_completeness auto

termination
  by (relation "measure (\<lambda>(new_elems, i, batchCmd). nat (i + 1))") auto

declare addSubCommands.simps [simp del]

text \<open>
  \<^verbatim>\<open>name = name || "Create Occlusion Masks"\<close> (line 39): an absent name and the empty
  string are falsy.
\<close>

definition defaultName :: "string option \<Rightarrow> string" where
  "defaultName name =
     (case name of
        None \<Rightarrow> ''Create Occlusion Masks''
      | Some n \<Rightarrow> if n = [] then ''Create Occlusion Masks'' else n)"

definition finalizeCreation ::
  "'n svgElement list option \<Rightarrow> string option \<Rightarrow> 'n svgCanvas \<Rightarrow> 'n svgCanvas" where
  "finalizeCreation new_elems name c =
     (case new_elems of
        None \<Rightarrow> c
      | Some elems \<Rightarrow>
          if length elems = 0 then c
          else
            let name' = defaultName name;
                batchCmd = BatchCommand name';
                batchCmd' = addSubCommands elems (int (length elems) - 1) batchCmd
            in if \<not> isEmpty batchCmd'
               then call ''changed'' elems (addCommandToHistory batchCmd' c)
               else c)"

subsection \<open>storeOcrResults (lines 65-67)\<close>

definition storeOcrResults :: "'n ocrRect list option \<Rightarrow> 'n svgCanvas \<Rightarrow> 'n svgCanvas" where
  "storeOcrResults rects c = c\<lparr>storedOcrRects := rects\<rparr>"

subsection \<open>drawOcrRects (lines 75-95)\<close>

text \<open>
  The body of the \<^verbatim>\<open>forEach\<close> callback (lines 80-89, and again lines 133-142): the
  attribute object is built left to right, so the style is read and the identifier
  allocated before the element is created.
\<close>

definition createRect :: "'n ocrRect \<Rightarrow> 'n svgCanvas \<Rightarrow> 'n svgElement \<times> 'n svgCanvas" where
  "createRect r c =
     (let fill = getColor ''fill'' c;
          stroke = getColor ''stroke'' c;
          stroke_width = getStrokeWidth c;
          (id, c') = getNextId c
      in addSvgElementFromJson
           \<lparr>element = ''rect'',
            attr_x = rect_x r, attr_y = rect_y r,
            attr_width = rect_w r, attr_height = rect_h r,
            attr_fill = fill, attr_stroke = stroke,
            attr_stroke_width = stroke_width, attr_id = id\<rparr> c')"

text \<open>
  \<^verbatim>\<open>rects.forEach(function(r) { ...; new_elems.push(newElement); })\<close>: the array
  \<open>new_elems\<close> and the canvas are threaded through the iterations.
\<close>

fun createRects ::
  "'n ocrRect list \<Rightarrow> 'n svgElement list \<Rightarrow> 'n svgCanvas \<Rightarrow> 'n svgElement list \<times> 'n svgCanvas" where
  "createRects [] new_elems c = (new_elems, c)"
| "createRects (r # rects) new_elems c =
     (let (newElement, c') = createRect r c
      in createRects rects (new_elems @ [newElement]) c')"

definition drawOcrRects :: "'n ocrRect list option \<Rightarrow> 'n svgCanvas \<Rightarrow> 'n svgCanvas" where
  "drawOcrRects rects c =
     (case rects of
        None \<Rightarrow> c
      | Some rs \<Rightarrow>
          if length rs = 0 then c
          else
            let (new_elems, c') = createRects rs [] c
            in finalizeCreation (Some new_elems) (Some ''Create All Occlusion Masks'') c')"

subsection \<open>drawOcrRectsInSelection (lines 104-148)\<close>

text \<open>Lines 110-113 and 116-123: the corners of both boxes and the overlap test.\<close>

definition intersects :: "'n::{plus,ord} selectionBox \<Rightarrow> 'n ocrRect \<Rightarrow> bool" where
  "intersects selectionBox ocrRect =
     (let selX1 = sel_x selectionBox;
          selY1 = sel_y selectionBox;
          selX2 = sel_x selectionBox + sel_width selectionBox;
          selY2 = sel_y selectionBox + sel_height selectionBox;
          ocrX1 = rect_x ocrRect;
          ocrY1 = rect_y ocrRect;
          ocrX2 = rect_x ocrRect + rect_w ocrRect;
          ocrY2 = rect_y ocrRect + rect_h ocrRect
      in selX1 < ocrX2 \<and> selX2 > ocrX1 \<and> selY1 < ocrY2 \<and> selY2 > ocrY1)"

text \<open>Lines 115-128: the \<^verbatim>\<open>forEach\<close> that pushes the intersecting rectangles.\<close>

fun selectRects ::
  "'n::{plus,ord} selectionBox \<Rightarrow> 'n ocrRect list \<Rightarrow> 'n ocrRect list \<Rightarrow> 'n ocrRect list" where
  "selectRects selectionBox [] rectsToDraw = rectsToDraw"
| "selectRects selectionBox (ocrRect # ocrRects) rectsToDraw =
     (if intersects selectionBox ocrRect
      then selectRects selectionBox ocrRects (rectsToDraw @ [ocrRect])
      else selectRects selectionBox ocrRects rectsToDraw)"

definition drawOcrRectsInSelection ::
  "'n::{plus,ord} selectionBox \<Rightarrow> 'n svgCanvas \<Rightarrow> 'n svgCanvas" where
  "drawOcrRectsInSelection selectionBox c =
     (case storedOcrRects c of
        None \<Rightarrow> c
      | Some ocrRects \<Rightarrow>
          if length ocrRects = 0 then c
          else
            let rectsToDraw = selectRects selectionBox ocrRects []
            in if length rectsToDraw > 0
               then
                 let (new_elems, c') = createRects rectsToDraw [] c
                 in finalizeCreation (Some new_elems)
                      (Some ''Create Occlusion Masks in Selection'') c'
               else c)"

section \<open>JavaScript numbers\<close>

text \<open>
  The \<^verbatim>\<open>+\<close> of lines 112, 113, 118 and 119 is the addition of IEEE 754 doubles: the
  exact sum, rounded to the nearest number with a significand of 53 bits, a tie going to
  the one whose significand is even. The fragment modelled here is the doubles whose value
  is an integer: \<open>JSInt n\<close> is the double of value \<open>n\<close>. Every integer of magnitude
  below \<open>2 ^ 53\<close> is such a double; above, only the multiples of a power of two are. Sums
  beyond the range of the doubles (\<^verbatim>\<open>Infinity\<close>) are not reached by the inputs used
  below and are not modelled.

  \<open>excessBits a\<close> is the number of binary digits of \<open>a\<close> beyond 53, that is the
  number of low bits the significand cannot hold.
\<close>

function excessBits :: "int \<Rightarrow> nat" where
  "excessBits a = (if a < 2 ^ 53 then 0 else Suc (excessBits (a div 2)))"
  by pat_completeness auto

termination
  by (relation "measure nat") auto

declare excessBits.simps [simp del]

text \<open>
  Rounding an exact integer result to a double: the low \<open>k\<close> bits are dropped, and the
  significand \<open>q\<close> goes up by one when the dropped part \<open>r\<close> is more than half a unit, or
  exactly half a unit with \<open>q\<close> odd. The sign is kept.
\<close>

definition roundToDouble :: "int \<Rightarrow> int" where
  "roundToDouble n =
     (let a = \<bar>n\<bar>;
          k = excessBits a
      in if k = 0 then n
         else
           let q = a div 2 ^ k;
               r = a mod 2 ^ k;
               half = 2 ^ (k - 1);
               q' = (if r > half \<or> (r = half \<and> odd q) then q + 1 else q)
           in sgn n * (q' * 2 ^ k))"

datatype jsnum = JSInt (val: int)

text \<open>
  Addition rounds; \<open><\<close> compares the values, as it does on doubles that are numbers.
\<close>

instantiation jsnum :: "{plus, linorder}"
begin

definition plus_jsnum :: "jsnum \<Rightarrow> jsnum \<Rightarrow> jsnum" where
  "a + b = JSInt (roundToDouble (val a + val b))"

definition less_eq_jsnum :: "jsnum \<Rightarrow> jsnum \<Rightarrow> bool" where
  "a \<le> b \<longleftrightarrow> val a \<le> val b"

definition less_jsnum :: "jsnum \<Rightarrow> jsnum \<Rightarrow> bool" where
  "a < b \<longleftrightarrow> val a < val b"

instance
  by standard (auto simp: less_eq_jsnum_def less_jsnum_def jsnum.expand)

end

section \<open>Notions used to state the properties\<close>

text \<open>
  The overlap test in the words of the specification (section 4.3): open intervals on
  both axes, \<open>rectX2 = rectX1 + rect.w\<close> and \<open>rectY2 = rectY1 + rect.h\<close>, and the
  same for the selection box. It is compared below with \<open>intersects\<close>, which follows
  the code.
\<close>

definition strictOverlap :: "'n::{plus,ord} selectionBox \<Rightarrow> 'n ocrRect \<Rightarrow> bool" where
  "strictOverlap sel r \<longleftrightarrow>
     sel_x sel < rect_x r + rect_w r \<and> sel_x sel + sel_width sel > rect_x r \<and>
     sel_y sel < rect_y r + rect_h r \<and> sel_y sel + sel_height sel > rect_y r"


text \<open>The position and size an element carries, read back as a descriptor.\<close>

definition elem_rect :: "'n svgElement \<Rightarrow> 'n ocrRect" where
  "elem_rect e =
     \<lparr>rect_x = attr_x e, rect_y = attr_y e, rect_w = attr_width e, rect_h = attr_height e\<rparr>"

text \<open>A box in the role of the rectangle: same corner, same extent.\<close>

definition asOcrRect :: "'n selectionBox \<Rightarrow> 'n ocrRect" where
  "asOcrRect b =
     \<lparr>rect_x = sel_x b, rect_y = sel_y b, rect_w = sel_width b, rect_h = sel_height b\<rparr>"




subsection \<open>Example inputs\<close>

text \<open>
  Concrete values for the examples of section 8 of the specification. The canvas is
  the one line 27 leaves behind (\<^verbatim>\<open>storedOcrRects = []\<close>), with an empty document
  and history and some current style.
\<close>

definition exampleCanvas :: "real svgCanvas" where
  "exampleCanvas =
     \<lparr>storedOcrRects = Some [], cur_fill = ''#FFEBA2'', cur_stroke = ''#2D2D2D'',
      cur_stroke_width = 1, obj_num = 0, document = [], undoStack = [], events = []\<rparr>"

definition exampleElement :: "nat \<Rightarrow> real svgElement" where
  "exampleElement k =
     \<lparr>element = ''rect'', attr_x = real k, attr_y = 0, attr_width = 5, attr_height = 5,
      attr_fill = ''#FFEBA2'', attr_stroke = ''#2D2D2D'', attr_stroke_width = 1, attr_id = k\<rparr>"

definition box :: "real \<Rightarrow> real \<Rightarrow> real \<Rightarrow> real \<Rightarrow> real selectionBox" where
  "box x y width height = \<lparr>sel_x = x, sel_y = y, sel_width = width, sel_height = height\<rparr>"

definition rect :: "real \<Rightarrow> real \<Rightarrow> real \<Rightarrow> real \<Rightarrow> real ocrRect" where
  "rect x y w h = \<lparr>rect_x = x, rect_y = y, rect_w = w, rect_h = h\<rparr>"




section \<open>Auxiliary lemmas\<close>

lemma intersects_iff: "intersects sel r = strictOverlap sel r"
  by (simp add: intersects_def strictOverlap_def)

lemma selectRects_acc: "selectRects sel rs acc = acc @ filter (intersects sel) rs"
  by (induction rs arbitrary: acc) simp_all

lemma selectRects_filter: "selectRects sel rs [] = filter (strictOverlap sel) rs"
  by (simp add: selectRects_acc intersects_iff [abs_def])







lemma addSubCommands_stack:
  "i < int (length es) \<Longrightarrow>
   addSubCommands es i b =
     b\<lparr>batch_stack := batch_stack b @ map InsertElementCommand (rev (take (nat (i + 1)) es))\<rparr>"
proof (induction es i b rule: addSubCommands.induct)
  case (1 new_elems i batchCmd)
  show ?case
  proof (cases "i \<ge> 0")
    case True
    have t: "take (nat (i + 1)) new_elems = take (nat i) new_elems @ [new_elems ! nat i]"
      using True "1.prems" by (simp add: nat_add_distrib take_Suc_conv_app_nth)
    have n: "nat (i - 1 + 1) = nat i" by simp
    show ?thesis
      using True "1.IH" [OF True refl] "1.prems"
      by (subst addSubCommands.simps) (simp add: t n addSubCommand_def)
  next
    case False
    then show ?thesis
      by (subst addSubCommands.simps) simp
  qed
qed

lemma finalizeCreation_nonempty:
  assumes "es \<noteq> []"
  shows "finalizeCreation (Some es) name c =
     c\<lparr>undoStack := undoStack c @
          [\<lparr>batch_text = defaultName name, batch_stack = map InsertElementCommand (rev es)\<rparr>],
       events := events c @ [(''changed'', es)]\<rparr>"
proof -
  have "int (length es) - 1 < int (length es)" by simp
  from addSubCommands_stack [OF this, of "BatchCommand (defaultName name)"]
  have "addSubCommands es (int (length es) - 1) (BatchCommand (defaultName name)) =
        \<lparr>batch_text = defaultName name, batch_stack = map InsertElementCommand (rev es)\<rparr>"
    by (simp add: BatchCommand_def)
  then show ?thesis
    using assms
    by (simp add: finalizeCreation_def Let_def isEmpty_def call_def addCommandToHistory_def)
qed


lemma createRect_eq:
  "createRect r c =
     (\<lparr>element = ''rect'', attr_x = rect_x r, attr_y = rect_y r,
       attr_width = rect_w r, attr_height = rect_h r,
       attr_fill = cur_fill c, attr_stroke = cur_stroke c,
       attr_stroke_width = cur_stroke_width c, attr_id = Suc (obj_num c)\<rparr>,
      c\<lparr>obj_num := Suc (obj_num c),
        document := document c @
          [\<lparr>element = ''rect'', attr_x = rect_x r, attr_y = rect_y r,
            attr_width = rect_w r, attr_height = rect_h r,
            attr_fill = cur_fill c, attr_stroke = cur_stroke c,
            attr_stroke_width = cur_stroke_width c, attr_id = Suc (obj_num c)\<rparr>]\<rparr>)"
  by (simp add: createRect_def getColor_def getStrokeWidth_def getNextId_def
      addSvgElementFromJson_def Let_def)

lemma createRects_spec:
  "\<exists>es. createRects rs acc c =
           (acc @ es, c\<lparr>obj_num := obj_num c + length rs, document := document c @ es\<rparr>) \<and>
        map elem_rect es = rs \<and> (\<forall>e\<in>set es. element e = ''rect'')"
proof (induction rs arbitrary: acc c)
  case Nil
  show ?case by simp
next
  case (Cons r rs)
  obtain e c1 where rc: "createRect r c = (e, c1)"
    and c1: "c1 = c\<lparr>obj_num := Suc (obj_num c), document := document c @ [e]\<rparr>"
    and e: "elem_rect e = r" "element e = ''rect''"
    by (simp add: createRect_eq elem_rect_def)
  from Cons.IH [of "acc @ [e]" c1] obtain es where
    es: "createRects rs (acc @ [e]) c1 =
           ((acc @ [e]) @ es, c1\<lparr>obj_num := obj_num c1 + length rs, document := document c1 @ es\<rparr>)"
      "map elem_rect es = rs" "\<forall>e\<in>set es. element e = ''rect''"
    by blast
  have "createRects (r # rs) acc c =
          (acc @ (e # es),
           c\<lparr>obj_num := obj_num c + length (r # rs), document := document c @ (e # es)\<rparr>)"
    using rc es(1) by (simp add: c1)
  moreover have "map elem_rect (e # es) = r # rs"
    using e es(2) by simp
  moreover have "\<forall>x\<in>set (e # es). element x = ''rect''"
    using e es(3) by simp
  ultimately show ?case
    by (intro exI [of _ "e # es"] conjI)
qed

lemma create_and_finalize:
  assumes "rs \<noteq> []"
  shows "\<exists>es. map elem_rect es = rs \<and> (\<forall>e\<in>set es. element e = ''rect'') \<and>
     (case createRects rs [] c of (new_elems, c') \<Rightarrow> finalizeCreation (Some new_elems) name c') =
       c\<lparr>obj_num := obj_num c + length rs,
         document := document c @ es,
         undoStack := undoStack c @
           [\<lparr>batch_text = defaultName name, batch_stack = map InsertElementCommand (rev es)\<rparr>],
         events := events c @ [(''changed'', es)]\<rparr>"
proof -
  from createRects_spec [of rs "[]" c] obtain es where
    es: "createRects rs [] c =
           (es, c\<lparr>obj_num := obj_num c + length rs, document := document c @ es\<rparr>)"
      "map elem_rect es = rs" "\<forall>e\<in>set es. element e = ''rect''"
    by auto
  from es(2) assms have "es \<noteq> []" by auto
  then show ?thesis
    using es by (intro exI [of _ es]) (simp add: finalizeCreation_nonempty)
qed

lemma drawOcrRects_nonempty:
  assumes "rs \<noteq> []"
  shows "\<exists>es. map elem_rect es = rs \<and> (\<forall>e\<in>set es. element e = ''rect'') \<and>
     drawOcrRects (Some rs) c =
       c\<lparr>obj_num := obj_num c + length rs,
         document := document c @ es,
         undoStack := undoStack c @
           [\<lparr>batch_text = ''Create All Occlusion Masks'',
             batch_stack = map InsertElementCommand (rev es)\<rparr>],
         events := events c @ [(''changed'', es)]\<rparr>"
  using assms create_and_finalize [OF assms, where c = c and name = "Some ''Create All Occlusion Masks''"]
  by (simp add: drawOcrRects_def defaultName_def)

lemma drawOcrRectsInSelection_cases:
  "drawOcrRectsInSelection sel c =
     (case storedOcrRects c of
        None \<Rightarrow> c
      | Some rs \<Rightarrow>
          if filter (strictOverlap sel) rs = [] then c
          else (case createRects (filter (strictOverlap sel) rs) [] c of
                  (new_elems, c') \<Rightarrow>
                    finalizeCreation (Some new_elems)
                      (Some ''Create Occlusion Masks in Selection'') c'))"
  by (auto simp: drawOcrRectsInSelection_def selectRects_filter Let_def split: option.splits)

lemma drawOcrRectsInSelection_nonempty:
  assumes "storedOcrRects c = Some rs" and "filter (strictOverlap sel) rs \<noteq> []"
  shows "\<exists>es. map elem_rect es = filter (strictOverlap sel) rs \<and>
     (\<forall>e\<in>set es. element e = ''rect'') \<and>
     drawOcrRectsInSelection sel c =
       c\<lparr>obj_num := obj_num c + length (filter (strictOverlap sel) rs),
         document := document c @ es,
         undoStack := undoStack c @
           [\<lparr>batch_text = ''Create Occlusion Masks in Selection'',
             batch_stack = map InsertElementCommand (rev es)\<rparr>],
         events := events c @ [(''changed'', es)]\<rparr>"
  using assms
    create_and_finalize [OF assms(2), where c = c and name = "Some ''Create Occlusion Masks in Selection''"]
  by (simp add: drawOcrRectsInSelection_cases defaultName_def)

lemma drawOcrRectsInSelection_none:
  assumes "storedOcrRects c = Some rs" and "filter (strictOverlap sel) rs = []"
  shows "drawOcrRectsInSelection sel c = c"
  using assms by (simp add: drawOcrRectsInSelection_cases)

lemma finalizeCreation_empty:
  "finalizeCreation None name c = c" "finalizeCreation (Some []) name c = c"
  by (simp_all add: finalizeCreation_def)

lemma drawOcrRects_empty:
  "drawOcrRects None c = c" "drawOcrRects (Some []) c = c"
  by (simp_all add: drawOcrRects_def)

lemma finalizeCreation_undoStack:
  "undoStack (finalizeCreation new_elems name c) =
     (case new_elems of
        None \<Rightarrow> undoStack c
      | Some elems \<Rightarrow>
          if elems = [] then undoStack c
          else undoStack c @
            [\<lparr>batch_text = defaultName name,
              batch_stack = map InsertElementCommand (rev elems)\<rparr>])"
  by (simp add: finalizeCreation_empty finalizeCreation_nonempty split: option.splits)

lemma drawOcrRectsInSelection_document:
  assumes "storedOcrRects c = Some rs"
  shows "\<exists>es. document (drawOcrRectsInSelection sel c) = document c @ es \<and>
              map elem_rect es = filter (strictOverlap sel) rs"
proof (cases "filter (strictOverlap sel) rs = []")
  case True
  then show ?thesis
    by (simp add: drawOcrRectsInSelection_none [OF assms True])
next
  case False
  from drawOcrRectsInSelection_nonempty [OF assms False] obtain es where
    m: "map elem_rect es = filter (strictOverlap sel) rs"
    and eq: "drawOcrRectsInSelection sel c =
       c\<lparr>obj_num := obj_num c + length (filter (strictOverlap sel) rs),
         document := document c @ es,
         undoStack := undoStack c @
           [\<lparr>batch_text = ''Create Occlusion Masks in Selection'',
             batch_stack = map InsertElementCommand (rev es)\<rparr>],
         events := events c @ [(''changed'', es)]\<rparr>"
    by blast
  have "document (drawOcrRectsInSelection sel c) = document c @ es"
    by (simp add: eq)
  with m show ?thesis
    by (intro exI [of _ es]) simp
qed

lemma finalizeCreation_store:
  "storedOcrRects (finalizeCreation new_elems name c) = storedOcrRects c"
proof (cases "new_elems = None \<or> new_elems = Some []")
  case True
  then show ?thesis by (auto simp: finalizeCreation_empty)
next
  case False
  then obtain elems where "new_elems = Some elems" "elems \<noteq> []"
    by (cases new_elems) auto
  then show ?thesis by (simp add: finalizeCreation_nonempty)
qed

lemma drawOcrRects_store:
  "storedOcrRects (drawOcrRects rects c) = storedOcrRects c"
proof (cases "rects = None \<or> rects = Some []")
  case True
  then show ?thesis by (auto simp: drawOcrRects_empty)
next
  case False
  then obtain rs where r: "rects = Some rs" "rs \<noteq> []"
    by (cases rects) auto
  from drawOcrRects_nonempty [OF r(2), of c] obtain es where
    eq: "drawOcrRects (Some rs) c =
       c\<lparr>obj_num := obj_num c + length rs,
         document := document c @ es,
         undoStack := undoStack c @
           [\<lparr>batch_text = ''Create All Occlusion Masks'',
             batch_stack = map InsertElementCommand (rev es)\<rparr>],
         events := events c @ [(''changed'', es)]\<rparr>"
    by blast
  show ?thesis by (simp add: r(1) eq)
qed

lemma drawOcrRectsInSelection_store:
  "storedOcrRects (drawOcrRectsInSelection sel c) = storedOcrRects c"
proof (cases "storedOcrRects c")
  case None
  then show ?thesis by (simp add: drawOcrRectsInSelection_cases)
next
  case (Some rs)
  show ?thesis
  proof (cases "filter (strictOverlap sel) rs = []")
    case True
    then show ?thesis by (simp add: drawOcrRectsInSelection_none [OF Some True])
  next
    case False
    from drawOcrRectsInSelection_nonempty [OF Some False] obtain es where
      eq: "drawOcrRectsInSelection sel c =
       c\<lparr>obj_num := obj_num c + length (filter (strictOverlap sel) rs),
         document := document c @ es,
         undoStack := undoStack c @
           [\<lparr>batch_text = ''Create Occlusion Masks in Selection'',
             batch_stack = map InsertElementCommand (rev es)\<rparr>],
         events := events c @ [(''changed'', es)]\<rparr>"
      by blast
    show ?thesis by (simp add: eq)
  qed
qed


section \<open>Properties of the extension\<close>




text \<open>
  Claim C2. For a non-empty sequence of created elements \<open>[e1, ..., en]\<close>,
  \<^verbatim>\<open>finalizeCreation\<close> pushes one batch whose sub-commands are one
  \<^verbatim>\<open>InsertElementCommand\<close> per element in reverse creation order \<open>[en, ..., e1]\<close>,
  and the one \<^verbatim>\<open>changed\<close> event it emits afterwards carries the elements in
  creation order \<open>[e1, ..., en]\<close>.
\<close>

theorem finalizeCreation_reverse_order:
  assumes "elements \<noteq> []"
  shows "\<exists>batchCmd.
     undoStack (finalizeCreation (Some elements) actionName c) = undoStack c @ [batchCmd] \<and>
     batch_stack batchCmd = map InsertElementCommand (rev elements) \<and>
     length (batch_stack batchCmd) = length elements \<and>
     events (finalizeCreation (Some elements) actionName c) =
       events c @ [(''changed'', elements)]"
  by (simp add: finalizeCreation_nonempty [OF assms])

theorem finalizeCreation_reverse_order_witness:
  "undoStack (finalizeCreation
      (Some [exampleElement 1, exampleElement 2, exampleElement 3]) None exampleCanvas) =
     [\<lparr>batch_text = ''Create Occlusion Masks'',
       batch_stack = [InsertElementCommand (exampleElement 3),
                      InsertElementCommand (exampleElement 2),
                      InsertElementCommand (exampleElement 1)]\<rparr>] \<and>
   events (finalizeCreation
      (Some [exampleElement 1, exampleElement 2, exampleElement 3]) None exampleCanvas) =
     [(''changed'', [exampleElement 1, exampleElement 2, exampleElement 3])]"
proof -
  let ?es = "[exampleElement 1, exampleElement 2, exampleElement 3]"
  have ne: "?es \<noteq> []" by simp
  from finalizeCreation_reverse_order [OF ne, of None exampleCanvas]
  obtain b where
    u: "undoStack (finalizeCreation (Some ?es) None exampleCanvas) = undoStack exampleCanvas @ [b]"
    and s: "batch_stack b = map InsertElementCommand (rev ?es)"
    and e: "events (finalizeCreation (Some ?es) None exampleCanvas) =
              events exampleCanvas @ [(''changed'', ?es)]"
    by blast
  have t: "batch_text b = ''Create Occlusion Masks''"
    using u ne by (auto simp: finalizeCreation_nonempty defaultName_def)
  have b: "b = \<lparr>batch_text = ''Create Occlusion Masks'',
       batch_stack = [InsertElementCommand (exampleElement 3),
                      InsertElementCommand (exampleElement 2),
                      InsertElementCommand (exampleElement 1)]\<rparr>"
    by (rule batchCommand.equality) (simp_all add: s t)
  show ?thesis
    using u e b by (simp add: exampleCanvas_def)
qed

text \<open>
  Claim C3. For a non-empty sequence of descriptors, \<^verbatim>\<open>drawOcrRects\<close> adds to the
  document exactly one \<^verbatim>\<open>rect\<close> element per descriptor, in input order and with the
  position and size of its descriptor, and emits the \<^verbatim>\<open>changed\<close> event exactly
  once, with the created elements in input order as its payload.
\<close>

theorem drawOcrRects_one_element_per_descriptor:
  assumes "rects \<noteq> []"
  shows "\<exists>new_elems.
     document (drawOcrRects (Some rects) c) = document c @ new_elems \<and>
     length new_elems = length rects \<and>
     map elem_rect new_elems = rects \<and>
     (\<forall>e\<in>set new_elems. element e = ''rect'') \<and>
     events (drawOcrRects (Some rects) c) = events c @ [(''changed'', new_elems)]"
proof -
  from drawOcrRects_nonempty [OF assms, of c] obtain es where
    es: "map elem_rect es = rects" "\<forall>e\<in>set es. element e = ''rect''"
    and eq: "drawOcrRects (Some rects) c =
       c\<lparr>obj_num := obj_num c + length rects,
         document := document c @ es,
         undoStack := undoStack c @
           [\<lparr>batch_text = ''Create All Occlusion Masks'',
             batch_stack = map InsertElementCommand (rev es)\<rparr>],
         events := events c @ [(''changed'', es)]\<rparr>"
    by blast
  have d: "document (drawOcrRects (Some rects) c) = document c @ es"
    and ev: "events (drawOcrRects (Some rects) c) = events c @ [(''changed'', es)]"
    by (simp_all add: eq)
  from es(1) have "length es = length rects" by auto
  with es d ev show ?thesis
    by (intro exI [of _ es]) simp
qed

theorem drawOcrRects_one_element_per_descriptor_witness:
  "map elem_rect (document (drawOcrRects (Some [rect 10 10 20 20, rect 200 200 10 10]) exampleCanvas)) =
     [rect 10 10 20 20, rect 200 200 10 10] \<and>
   events (drawOcrRects (Some [rect 10 10 20 20, rect 200 200 10 10]) exampleCanvas) =
     [(''changed'',
       document (drawOcrRects (Some [rect 10 10 20 20, rect 200 200 10 10]) exampleCanvas))]"
proof -
  let ?rs = "[rect 10 10 20 20, rect 200 200 10 10]"
  have ne: "?rs \<noteq> []" by simp
  from drawOcrRects_one_element_per_descriptor [OF ne, of exampleCanvas]
  obtain es where
    "document (drawOcrRects (Some ?rs) exampleCanvas) = document exampleCanvas @ es"
    "map elem_rect es = ?rs"
    "events (drawOcrRects (Some ?rs) exampleCanvas) = events exampleCanvas @ [(''changed'', es)]"
    by (elim exE conjE)
  then show ?thesis
    by (simp add: exampleCanvas_def)
qed

text \<open>
  Claim C4. On empty or absent input each of \<^verbatim>\<open>drawOcrRects\<close> (argument),
  \<^verbatim>\<open>drawOcrRectsInSelection\<close> (stored sequence) and \<^verbatim>\<open>finalizeCreation\<close>
  (elements) returns at once: the canvas is left as it was, so no element is created, no
  history entry is pushed and no event is emitted.
\<close>

theorem empty_input_is_noop:
  "drawOcrRects None c = c \<and> drawOcrRects (Some []) c = c \<and>
   (storedOcrRects c = None \<or> storedOcrRects c = Some [] \<longrightarrow>
      drawOcrRectsInSelection selectionBox c = c) \<and>
   finalizeCreation None actionName c = c \<and> finalizeCreation (Some []) actionName c = c"
  by (auto simp: drawOcrRects_def drawOcrRectsInSelection_def finalizeCreation_def)

theorem empty_input_is_noop_witness:
  "drawOcrRects None exampleCanvas = exampleCanvas \<and>
   drawOcrRects (Some []) exampleCanvas = exampleCanvas \<and>
   storedOcrRects exampleCanvas = Some [] \<and>
   drawOcrRectsInSelection (box 0 0 10 10) exampleCanvas = exampleCanvas \<and>
   storedOcrRects (storeOcrResults None exampleCanvas) = None \<and>
   drawOcrRectsInSelection (box 0 0 10 10) (storeOcrResults None exampleCanvas) =
     storeOcrResults None exampleCanvas \<and>
   finalizeCreation None (Some ''Create All Occlusion Masks'') exampleCanvas = exampleCanvas \<and>
   finalizeCreation (Some []) (Some ''Create All Occlusion Masks'') exampleCanvas = exampleCanvas"
proof -
  have a: "storedOcrRects exampleCanvas = Some []"
    by (simp add: exampleCanvas_def)
  have b: "storedOcrRects (storeOcrResults None exampleCanvas) = None"
    by (simp add: storeOcrResults_def)
  note n1 = empty_input_is_noop
    [of exampleCanvas "box 0 0 10 10" "Some ''Create All Occlusion Masks''"]
  note n2 = empty_input_is_noop [of "storeOcrResults None exampleCanvas" "box 0 0 10 10" None]
  from n1 a have c: "drawOcrRectsInSelection (box 0 0 10 10) exampleCanvas = exampleCanvas"
    by (elim conjE) (rule mp, assumption, rule disjI2, assumption)
  from n2 b have d: "drawOcrRectsInSelection (box 0 0 10 10) (storeOcrResults None exampleCanvas) =
     storeOcrResults None exampleCanvas"
    by (elim conjE) (rule mp, assumption, rule disjI1, assumption)
  from n1 have e: "drawOcrRects None exampleCanvas = exampleCanvas"
    "drawOcrRects (Some []) exampleCanvas = exampleCanvas"
    "finalizeCreation None (Some ''Create All Occlusion Masks'') exampleCanvas = exampleCanvas"
    "finalizeCreation (Some []) (Some ''Create All Occlusion Masks'') exampleCanvas = exampleCanvas"
    by simp_all
  show ?thesis
    by (intro conjI a b c d e)
qed

text \<open>
  Claim C5. \<^verbatim>\<open>storeOcrResults\<close> replaces the stored sequence whatever it is given,
  the empty sequence included. After two deliveries the store holds the second one and
  the canvas is the one the second delivery alone would have left, so
  \<^verbatim>\<open>drawOcrRectsInSelection\<close> draws from the second delivery only: the elements it
  adds are those of the second delivery's rectangles that pass the overlap test.
\<close>

theorem storeOcrResults_replaces:
  "storedOcrRects (storeOcrResults rects c) = rects \<and>
   storedOcrRects (storeOcrResults (Some []) c) = Some [] \<and>
   storedOcrRects (storeOcrResults second (storeOcrResults first c)) = second \<and>
   storeOcrResults second (storeOcrResults first c) = storeOcrResults second c \<and>
   drawOcrRectsInSelection selectionBox (storeOcrResults second (storeOcrResults first c)) =
     drawOcrRectsInSelection selectionBox (storeOcrResults second c) \<and>
   (\<forall>rs. second = Some rs \<longrightarrow>
      (\<exists>new_elems.
         document (drawOcrRectsInSelection selectionBox
                     (storeOcrResults second (storeOcrResults first c))) =
           document c @ new_elems \<and>
         map elem_rect new_elems = filter (strictOverlap selectionBox) rs))"
proof -
  have twice: "storeOcrResults second (storeOcrResults first c) = storeOcrResults second c"
    by (simp add: storeOcrResults_def)
  have "\<exists>new_elems.
         document (drawOcrRectsInSelection selectionBox (storeOcrResults (Some rs) c)) =
           document c @ new_elems \<and>
         map elem_rect new_elems = filter (strictOverlap selectionBox) rs" for rs
    using drawOcrRectsInSelection_document
      [of "storeOcrResults (Some rs) c" rs selectionBox]
    by (simp add: storeOcrResults_def)
  then show ?thesis
    by (simp add: twice) (simp add: storeOcrResults_def)
qed

theorem storeOcrResults_replaces_witness:
  "storedOcrRects (storeOcrResults (Some [rect 30 30 5 5])
      (storeOcrResults (Some [rect 10 10 20 20]) exampleCanvas)) = Some [rect 30 30 5 5] \<and>
   map elem_rect (document (drawOcrRectsInSelection (box 0 0 100 100)
      (storeOcrResults (Some [rect 30 30 5 5])
         (storeOcrResults (Some [rect 10 10 20 20]) exampleCanvas)))) = [rect 30 30 5 5]"
proof -
  note t = storeOcrResults_replaces [of "Some [rect 30 30 5 5]" exampleCanvas
      "Some [rect 30 30 5 5]" "Some [rect 10 10 20 20]" "box 0 0 100 100"]
  from t obtain es where
    "document (drawOcrRectsInSelection (box 0 0 100 100)
       (storeOcrResults (Some [rect 30 30 5 5])
          (storeOcrResults (Some [rect 10 10 20 20]) exampleCanvas))) =
     document exampleCanvas @ es"
    "map elem_rect es = filter (strictOverlap (box 0 0 100 100)) [rect 30 30 5 5]"
    by blast
  then have "map elem_rect (document (drawOcrRectsInSelection (box 0 0 100 100)
      (storeOcrResults (Some [rect 30 30 5 5])
         (storeOcrResults (Some [rect 10 10 20 20]) exampleCanvas)))) = [rect 30 30 5 5]"
    by (simp add: exampleCanvas_def strictOverlap_def box_def rect_def)
  with t show ?thesis by blast
qed

text \<open>
  Claim C6. With a stored sequence and a selection box: when some stored rectangle
  passes the strict overlap test, \<^verbatim>\<open>drawOcrRectsInSelection\<close> adds one element per
  rectangle that passes, in stored order, and pushes exactly one history entry, named
  \<^verbatim>\<open>Create Occlusion Masks in Selection\<close>; when none passes, it adds no element and
  pushes no history entry. (The statement does not need the stored sequence to be
  non-empty: an empty one falls under the second case.)
\<close>

theorem drawOcrRectsInSelection_filtered:
  assumes "storedOcrRects c = Some ocrRects"
  shows
   "(filter (strictOverlap selectionBox) ocrRects \<noteq> [] \<longrightarrow>
      (\<exists>new_elems batchCmd.
         document (drawOcrRectsInSelection selectionBox c) = document c @ new_elems \<and>
         map elem_rect new_elems = filter (strictOverlap selectionBox) ocrRects \<and>
         length new_elems = length (filter (strictOverlap selectionBox) ocrRects) \<and>
         undoStack (drawOcrRectsInSelection selectionBox c) = undoStack c @ [batchCmd] \<and>
         batch_text batchCmd = ''Create Occlusion Masks in Selection'')) \<and>
    (filter (strictOverlap selectionBox) ocrRects = [] \<longrightarrow>
       document (drawOcrRectsInSelection selectionBox c) = document c \<and>
       undoStack (drawOcrRectsInSelection selectionBox c) = undoStack c)"
proof (intro conjI impI)
  assume ne: "filter (strictOverlap selectionBox) ocrRects \<noteq> []"
  from drawOcrRectsInSelection_nonempty [OF assms ne] obtain es where
    m: "map elem_rect es = filter (strictOverlap selectionBox) ocrRects"
    and eq: "drawOcrRectsInSelection selectionBox c =
       c\<lparr>obj_num := obj_num c + length (filter (strictOverlap selectionBox) ocrRects),
         document := document c @ es,
         undoStack := undoStack c @
           [\<lparr>batch_text = ''Create Occlusion Masks in Selection'',
             batch_stack = map InsertElementCommand (rev es)\<rparr>],
         events := events c @ [(''changed'', es)]\<rparr>"
    by blast
  from m have l: "length es = length (filter (strictOverlap selectionBox) ocrRects)"
    by (metis length_map)
  show "\<exists>new_elems batchCmd.
         document (drawOcrRectsInSelection selectionBox c) = document c @ new_elems \<and>
         map elem_rect new_elems = filter (strictOverlap selectionBox) ocrRects \<and>
         length new_elems = length (filter (strictOverlap selectionBox) ocrRects) \<and>
         undoStack (drawOcrRectsInSelection selectionBox c) = undoStack c @ [batchCmd] \<and>
         batch_text batchCmd = ''Create Occlusion Masks in Selection''"
    using m l by (intro exI [of _ es]) (simp add: eq)
next
  assume e: "filter (strictOverlap selectionBox) ocrRects = []"
  show "document (drawOcrRectsInSelection selectionBox c) = document c"
    and "undoStack (drawOcrRectsInSelection selectionBox c) = undoStack c"
    by (simp_all add: drawOcrRectsInSelection_none [OF assms e])
qed

theorem drawOcrRectsInSelection_filtered_witness:
  "map elem_rect (document (drawOcrRectsInSelection (box 0 0 100 100)
      (storeOcrResults (Some [rect 10 10 20 20, rect 200 200 10 10]) exampleCanvas))) =
     [rect 10 10 20 20] \<and>
   map batch_text (undoStack (drawOcrRectsInSelection (box 0 0 100 100)
      (storeOcrResults (Some [rect 10 10 20 20, rect 200 200 10 10]) exampleCanvas))) =
     [''Create Occlusion Masks in Selection''] \<and>
   document (drawOcrRectsInSelection (box 500 500 1 1)
      (storeOcrResults (Some [rect 10 10 20 20, rect 200 200 10 10]) exampleCanvas)) = [] \<and>
   undoStack (drawOcrRectsInSelection (box 500 500 1 1)
      (storeOcrResults (Some [rect 10 10 20 20, rect 200 200 10 10]) exampleCanvas)) = []"
proof -
  let ?rs = "[rect 10 10 20 20, rect 200 200 10 10]"
  let ?c = "storeOcrResults (Some ?rs) exampleCanvas"
  have st: "storedOcrRects ?c = Some ?rs"
    by (simp add: storeOcrResults_def)
  have c: "document ?c = []" "undoStack ?c = []"
    by (simp_all add: storeOcrResults_def exampleCanvas_def)
  have f1: "filter (strictOverlap (box 0 0 100 100)) ?rs = [rect 10 10 20 20]"
    by (simp add: strictOverlap_def box_def rect_def)
  have f2: "filter (strictOverlap (box 500 500 1 1)) ?rs = []"
    by (simp add: strictOverlap_def box_def rect_def)
  note t1 = drawOcrRectsInSelection_filtered [OF st, of "box 0 0 100 100"]
  note t2 = drawOcrRectsInSelection_filtered [OF st, of "box 500 500 1 1"]
  from t1 f1 obtain es b where
    "document (drawOcrRectsInSelection (box 0 0 100 100) ?c) = document ?c @ es"
    "map elem_rect es = [rect 10 10 20 20]"
    "undoStack (drawOcrRectsInSelection (box 0 0 100 100) ?c) = undoStack ?c @ [b]"
    "batch_text b = ''Create Occlusion Masks in Selection''"
    by auto
  then have 1: "map elem_rect (document (drawOcrRectsInSelection (box 0 0 100 100) ?c)) =
      [rect 10 10 20 20]"
    and 2: "map batch_text (undoStack (drawOcrRectsInSelection (box 0 0 100 100) ?c)) =
      [''Create Occlusion Masks in Selection'']"
    by (simp_all add: c)
  from t2 f2 have 3: "document (drawOcrRectsInSelection (box 500 500 1 1) ?c) = []"
    and 4: "undoStack (drawOcrRectsInSelection (box 500 500 1 1) ?c) = []"
    by (simp_all add: c)
  from 1 2 3 4 show ?thesis by (intro conjI)
qed

text \<open>
  Claim C7. Whatever its arguments, \<^verbatim>\<open>finalizeCreation\<close> pushes at most one batch
  and never an empty one; when the elements are a non-empty sequence it does push a
  batch, with as many sub-commands as there are elements. Hence a history all of whose
  batches are non-empty stays so.
\<close>

theorem finalizeCreation_never_pushes_empty_batch:
  "(\<exists>pushed.
      undoStack (finalizeCreation new_elems name c) = undoStack c @ pushed \<and>
      length pushed \<le> 1 \<and> (\<forall>batchCmd\<in>set pushed. \<not> isEmpty batchCmd)) \<and>
   (\<forall>elems. new_elems = Some elems \<and> elems \<noteq> [] \<longrightarrow>
      (\<exists>batchCmd.
         undoStack (finalizeCreation new_elems name c) = undoStack c @ [batchCmd] \<and>
         \<not> isEmpty batchCmd \<and> length (batch_stack batchCmd) = length elems)) \<and>
   ((\<forall>batchCmd\<in>set (undoStack c). \<not> isEmpty batchCmd) \<longrightarrow>
      (\<forall>batchCmd\<in>set (undoStack (finalizeCreation new_elems name c)). \<not> isEmpty batchCmd))"
proof (intro conjI allI impI)
  show "\<exists>pushed.
      undoStack (finalizeCreation new_elems name c) = undoStack c @ pushed \<and>
      length pushed \<le> 1 \<and> (\<forall>batchCmd\<in>set pushed. \<not> isEmpty batchCmd)"
  proof (cases "new_elems = None \<or> new_elems = Some []")
    case True
    then have "undoStack (finalizeCreation new_elems name c) = undoStack c @ []"
      by (auto simp: finalizeCreation_empty)
    then show ?thesis
      by (intro exI [of _ "[]"]) simp
  next
    case False
    then obtain elems where e: "new_elems = Some elems" "elems \<noteq> []"
      by (cases new_elems) auto
    show ?thesis
      by (intro exI [of _ "[\<lparr>batch_text = defaultName name,
              batch_stack = map InsertElementCommand (rev elems)\<rparr>]"])
        (simp add: e finalizeCreation_undoStack isEmpty_def)
  qed
next
  fix elems
  assume "new_elems = Some elems \<and> elems \<noteq> []"
  then show "\<exists>batchCmd.
         undoStack (finalizeCreation new_elems name c) = undoStack c @ [batchCmd] \<and>
         \<not> isEmpty batchCmd \<and> length (batch_stack batchCmd) = length elems"
    by (simp add: finalizeCreation_undoStack isEmpty_def)
next
  assume "\<forall>batchCmd\<in>set (undoStack c). \<not> isEmpty batchCmd"
  then show "\<forall>batchCmd\<in>set (undoStack (finalizeCreation new_elems name c)). \<not> isEmpty batchCmd"
    by (simp add: finalizeCreation_undoStack isEmpty_def split: option.splits)
qed

theorem finalizeCreation_never_pushes_empty_batch_witness:
  "length (undoStack
     (finalizeCreation (Some [exampleElement 2, exampleElement 3]) (Some ''Masks'')
        (finalizeCreation (Some [exampleElement 1]) None exampleCanvas))) = 2 \<and>
   list_all (\<lambda>batchCmd. \<not> isEmpty batchCmd) (undoStack
     (finalizeCreation (Some [exampleElement 2, exampleElement 3]) (Some ''Masks'')
        (finalizeCreation (Some [exampleElement 1]) None exampleCanvas)))"
proof -
  let ?c1 = "finalizeCreation (Some [exampleElement 1]) None exampleCanvas"
  let ?c2 = "finalizeCreation (Some [exampleElement 2, exampleElement 3]) (Some ''Masks'') ?c1"
  note t1 = finalizeCreation_never_pushes_empty_batch
    [of "Some [exampleElement 1]" None exampleCanvas]
  note t2 = finalizeCreation_never_pushes_empty_batch
    [of "Some [exampleElement 2, exampleElement 3]" "Some ''Masks''" ?c1]
  have e: "undoStack exampleCanvas = []"
    by (simp add: exampleCanvas_def)
  from t1 obtain b1 where b1: "undoStack ?c1 = undoStack exampleCanvas @ [b1]" "\<not> isEmpty b1"
    by blast
  then have inv: "\<forall>batchCmd\<in>set (undoStack ?c1). \<not> isEmpty batchCmd"
    by (simp add: e)
  from t2 obtain b2 where b2: "undoStack ?c2 = undoStack ?c1 @ [b2]"
    by blast
  from t2 inv have all: "\<forall>batchCmd\<in>set (undoStack ?c2). \<not> isEmpty batchCmd"
    by blast
  have "length (undoStack ?c2) = 2"
    using b2 b1(1) e by simp
  moreover have "list_all (\<lambda>batchCmd. \<not> isEmpty batchCmd) (undoStack ?c2)"
    using all by (simp add: list_all_iff)
  ultimately show ?thesis by (rule conjI)
qed

text \<open>
  Claim C8. For a non-empty sequence of elements, the batch \<^verbatim>\<open>finalizeCreation\<close>
  pushes is named by the action name given, and by \<^verbatim>\<open>Create Occlusion Masks\<close> when
  the name is absent or the empty string.
\<close>

theorem finalizeCreation_batch_name:
  assumes "elements \<noteq> []"
  shows "\<exists>batchCmd.
     undoStack (finalizeCreation (Some elements) actionName c) = undoStack c @ [batchCmd] \<and>
     (actionName = None \<longrightarrow> batch_text batchCmd = ''Create Occlusion Masks'') \<and>
     (actionName = Some [] \<longrightarrow> batch_text batchCmd = ''Create Occlusion Masks'') \<and>
     (\<forall>n. actionName = Some n \<and> n \<noteq> [] \<longrightarrow> batch_text batchCmd = n)"
  using assms by (simp add: finalizeCreation_undoStack defaultName_def)

theorem finalizeCreation_batch_name_witness:
  "map batch_text (undoStack (finalizeCreation (Some [exampleElement 1])
      (Some ''Create All Occlusion Masks'') exampleCanvas)) = [''Create All Occlusion Masks''] \<and>
   map batch_text (undoStack (finalizeCreation (Some [exampleElement 1])
      None exampleCanvas)) = [''Create Occlusion Masks''] \<and>
   map batch_text (undoStack (finalizeCreation (Some [exampleElement 1])
      (Some []) exampleCanvas)) = [''Create Occlusion Masks'']"
proof -
  have ne: "[exampleElement 1] \<noteq> []" by simp
  have e: "undoStack exampleCanvas = []"
    by (simp add: exampleCanvas_def)
  have nm: "''Create All Occlusion Masks'' \<noteq> []" by simp
  from finalizeCreation_batch_name [OF ne, of "Some ''Create All Occlusion Masks''" exampleCanvas]
  obtain b1 where "undoStack (finalizeCreation (Some [exampleElement 1])
      (Some ''Create All Occlusion Masks'') exampleCanvas) = undoStack exampleCanvas @ [b1]"
    "batch_text b1 = ''Create All Occlusion Masks''"
    using nm by blast
  then have 1: "map batch_text (undoStack (finalizeCreation (Some [exampleElement 1])
      (Some ''Create All Occlusion Masks'') exampleCanvas)) = [''Create All Occlusion Masks'']"
    by (simp add: e)
  from finalizeCreation_batch_name [OF ne, of None exampleCanvas]
  obtain b2 where "undoStack (finalizeCreation (Some [exampleElement 1])
      None exampleCanvas) = undoStack exampleCanvas @ [b2]"
    "batch_text b2 = ''Create Occlusion Masks''"
    by blast
  then have 2: "map batch_text (undoStack (finalizeCreation (Some [exampleElement 1])
      None exampleCanvas)) = [''Create Occlusion Masks'']"
    by (simp add: e)
  from finalizeCreation_batch_name [OF ne, of "Some []" exampleCanvas]
  obtain b3 where "undoStack (finalizeCreation (Some [exampleElement 1])
      (Some []) exampleCanvas) = undoStack exampleCanvas @ [b3]"
    "batch_text b3 = ''Create Occlusion Masks''"
    by blast
  then have 3: "map batch_text (undoStack (finalizeCreation (Some [exampleElement 1])
      (Some []) exampleCanvas)) = [''Create Occlusion Masks'']"
    by (simp add: e)
  from 1 2 3 show ?thesis by (intro conjI)
qed

text \<open>
  Claim C9. Neither \<^verbatim>\<open>drawOcrRects\<close> nor \<^verbatim>\<open>drawOcrRectsInSelection\<close> (nor
  \<^verbatim>\<open>finalizeCreation\<close>, which both call) changes the stored rectangle sequence;
  \<^verbatim>\<open>storeOcrResults\<close> is the operation that writes it.
\<close>

theorem draw_operations_preserve_store:
  "storedOcrRects (drawOcrRects rects c) = storedOcrRects c \<and>
   storedOcrRects (drawOcrRectsInSelection selectionBox c) = storedOcrRects c \<and>
   storedOcrRects (finalizeCreation new_elems name c) = storedOcrRects c \<and>
   storedOcrRects (storeOcrResults rects c) = rects"
  by (simp add: drawOcrRects_store drawOcrRectsInSelection_store finalizeCreation_store
      storeOcrResults_def)

theorem draw_operations_preserve_store_witness:
  "storedOcrRects (drawOcrRects (Some [rect 1 2 3 4])
      (storeOcrResults (Some [rect 10 10 20 20]) exampleCanvas)) = Some [rect 10 10 20 20] \<and>
   storedOcrRects (drawOcrRectsInSelection (box 0 0 100 100)
      (storeOcrResults (Some [rect 10 10 20 20]) exampleCanvas)) = Some [rect 10 10 20 20]"
proof -
  let ?c = "storeOcrResults (Some [rect 10 10 20 20]) exampleCanvas"
  have s: "storedOcrRects ?c = Some [rect 10 10 20 20]"
    by (simp add: storeOcrResults_def)
  note t = draw_operations_preserve_store
    [of "Some [rect 1 2 3 4]" ?c "box 0 0 100 100" None None]
  from t have "storedOcrRects (drawOcrRects (Some [rect 1 2 3 4]) ?c) = storedOcrRects ?c"
    and "storedOcrRects (drawOcrRectsInSelection (box 0 0 100 100) ?c) = storedOcrRects ?c"
    by blast+
  then show ?thesis
    by (simp only: s)
qed

text \<open>
  Claim C10. The overlap test is symmetric: for two boxes \<open>a\<close> and \<open>b\<close>, each given by
  its corner and its extent, the test with \<open>a\<close> as the selection box and \<open>b\<close> as the
  rectangle gives the same answer as the test with the roles exchanged. This needs no
  property of the numbers: \<open>u > v\<close> is \<open>v < u\<close>.
\<close>

theorem intersects_symmetric:
  "intersects a (asOcrRect b) \<longleftrightarrow> intersects b (asOcrRect a)"
  by (auto simp: intersects_def asOcrRect_def)

theorem intersects_symmetric_witness:
  "intersects (box 0 0 10 10) (asOcrRect (box 9 0 5 5)) \<and>
   intersects (box 9 0 5 5) (asOcrRect (box 0 0 10 10)) \<and>
   \<not> intersects (box 0 0 10 10) (asOcrRect (box 10 0 5 5)) \<and>
   \<not> intersects (box 10 0 5 5) (asOcrRect (box 0 0 10 10))"
proof -
  have "intersects (box 0 0 10 10) (asOcrRect (box 9 0 5 5))"
    by (simp add: intersects_def asOcrRect_def box_def)
  moreover have "\<not> intersects (box 0 0 10 10) (asOcrRect (box 10 0 5 5))"
    by (simp add: intersects_def asOcrRect_def box_def)
  ultimately show ?thesis
    using intersects_symmetric [of "box 0 0 10 10" "box 9 0 5 5"]
      intersects_symmetric [of "box 0 0 10 10" "box 10 0 5 5"]
    by blast
qed

end
